theory Spec2Isabelle
  imports Complex_Main "HOL-Library.Multiset"
begin

section \<open>The relational schema\<close>

text \<open>
  The application keeps its data in a MySQL database with the tables \<open>users\<close>,
  \<open>categories\<close> and \<open>expenses\<close>. A table is a list of rows, in the order in which
  the server scans it. Identifiers are the AUTO\_INCREMENT integers of the schema, amounts
  are exact decimals (rationals here), Python's \<open>None\<close> and SQL's NULL are \<open>None\<close>.
\<close>

record date =
  year :: nat
  month :: nat
  day :: nat

text \<open>A calendar date, as a DATE column and Python's \<open>datetime.date\<close> hold it.\<close>

definition valid_date :: "date \<Rightarrow> bool" where
  "valid_date d = (1 \<le> month d \<and> month d \<le> 12 \<and> 1 \<le> day d \<and> day d \<le> 31)"

text \<open>The order of dates that \<open>expense_date >= %s\<close> and \<open>expense_date <= %s\<close> compare with.\<close>

definition date_le :: "date \<Rightarrow> date \<Rightarrow> bool" where
  "date_le a b = (year a < year b \<or> (year a = year b \<and>
     (month a < month b \<or> (month a = month b \<and> day a \<le> day b))))"

record user_row =
  u_user_id :: nat
  username :: string
  email :: string
  password :: string
  full_name :: string
  is_active :: bool

record category_row =
  c_category_id :: nat
  category_name :: string
  icon :: string
  color :: string

record expense_row =
  expense_id :: nat
  user_id :: nat
  category_id :: nat
  amount :: rat
  description :: string
  expense_date :: date
  payment_method :: string
  e_notes :: "string option"

text \<open>
  The database as \<open>DatabaseConnection\<close> sees it. \<open>reachable\<close> is False when
  \<open>get_connection\<close> returns \<open>None\<close> or the statement raises \<open>Error\<close>: then
  \<open>execute_query\<close> returns \<open>None\<close> and changes nothing (it rolls back).
\<close>

record database =
  users :: "user_row list"
  categories :: "category_row list"
  expenses :: "expense_row list"
  reachable :: bool

section \<open>Expense aggregation (models/expense.py)\<close>

text \<open>Python's truth test of an optional identifier: \<open>None\<close> and \<open>0\<close> are false.\<close>

fun truthy_id :: "nat option \<Rightarrow> bool" where
  "truthy_id None = False"
| "truthy_id (Some n) = (n \<noteq> 0)"

text \<open>
  The optional clauses \<open>AND expense_date >= %s\<close> and \<open>AND expense_date <= %s\<close>, appended
  when the argument is given.
\<close>

definition in_range :: "date option \<Rightarrow> date option \<Rightarrow> expense_row \<Rightarrow> bool" where
  "in_range start_date end_date e =
     ((case start_date of None \<Rightarrow> True | Some s \<Rightarrow> date_le s (expense_date e)) \<and>
      (case end_date of None \<Rightarrow> True | Some t \<Rightarrow> date_le (expense_date e) t))"

subsection \<open>get\_monthly\_totals\<close>

record month_total =
  mt_month :: nat
  mt_total :: rat
  mt_count :: nat

text \<open>
  \<open>SELECT MONTH(expense_date), COALESCE(SUM(amount), 0), COUNT(*) FROM expenses
  WHERE user_id = %s AND YEAR(expense_date) = %s GROUP BY MONTH(expense_date) ORDER BY month\<close>:
  one row for each month that has a matching expense.
\<close>

definition monthly_query :: "database \<Rightarrow> nat \<Rightarrow> nat \<Rightarrow> month_total list option" where
  "monthly_query db uid yr =
     (if \<not> reachable db then None
      else
        let rows = filter (\<lambda>e. user_id e = uid \<and> year (expense_date e) = yr) (expenses db);
            months = sort (remdups (map (\<lambda>e. month (expense_date e)) rows))
        in Some (map (\<lambda>m.
             \<lparr>mt_month = m,
              mt_total = sum_list (map amount (filter (\<lambda>e. month (expense_date e) = m) rows)),
              mt_count = length (filter (\<lambda>e. month (expense_date e) = m) rows)\<rparr>) months))"

text \<open>
  A Python dict keeps its keys in insertion order: \<open>d[k] = v\<close> replaces the value of a key
  that is present, where it stands, and appends a key that is not.
\<close>

fun dict_set :: "('k \<times> 'v) list \<Rightarrow> 'k \<Rightarrow> 'v \<Rightarrow> ('k \<times> 'v) list" where
  "dict_set [] k v = [(k, v)]"
| "dict_set ((k', v') # d) k v =
     (if k' = k then (k, v) # d else (k', v') # dict_set d k v)"

text \<open>\<open>{i: {'month': i, 'total': 0, 'count': 0} for i in range(1, 13)}\<close>\<close>

definition empty_months :: "(nat \<times> month_total) list" where
  "empty_months = map (\<lambda>i. (i, \<lparr>mt_month = i, mt_total = 0, mt_count = 0\<rparr>)) [1..<13]"

definition get_monthly_totals :: "database \<Rightarrow> nat \<Rightarrow> nat \<Rightarrow> month_total list" where
  "get_monthly_totals db uid yr =
     (let monthly_data =
        (case monthly_query db uid yr of
           None \<Rightarrow> empty_months
         | Some result \<Rightarrow> fold (\<lambda>row d. dict_set d (mt_month row) row) result empty_months)
      in map snd monthly_data)"

subsection \<open>get\_total\_expenses, get\_category\_totals, get\_expense\_stats\<close>



record category_total =
  ct_category_id :: nat
  ct_category_name :: string
  ct_icon :: string
  ct_color :: string
  ct_total :: rat
  ct_count :: nat

text \<open>
  The expenses that \<open>LEFT JOIN expenses e ON c.category_id = e.category_id AND e.user_id = %s\<close>
  (with the optional date clauses) joins to the category row \<open>c\<close>.
\<close>

definition joined :: "database \<Rightarrow> nat \<Rightarrow> date option \<Rightarrow> date option \<Rightarrow> category_row \<Rightarrow> expense_row list" where
  "joined db uid start_date end_date c =
     filter (\<lambda>e. c_category_id c = category_id e \<and> user_id e = uid \<and> in_range start_date end_date e)
       (expenses db)"

text \<open>
  \<open>GROUP BY c.category_id ORDER BY total DESC\<close>. \<open>category_id\<close> is the primary key of
  \<open>categories\<close>, so every category row is a group of its own; a category that joins to no
  expense keeps one row of NULLs, whose SUM is NULL (0 after COALESCE) and whose
  \<open>COUNT(e.expense_id)\<close> is 0. Rows of equal total come in the order of the table.
\<close>

definition category_totals_query ::
  "database \<Rightarrow> nat \<Rightarrow> date option \<Rightarrow> date option \<Rightarrow> category_total list option" where
  "category_totals_query db uid start_date end_date =
     (if \<not> reachable db then None
      else Some (sort_key (\<lambda>r. - ct_total r)
        (map (\<lambda>c. \<lparr>ct_category_id = c_category_id c, ct_category_name = category_name c,
                   ct_icon = icon c, ct_color = color c,
                   ct_total = sum_list (map amount (joined db uid start_date end_date c)),
                   ct_count = length (joined db uid start_date end_date c)\<rparr>)
           (categories db))))"

text \<open>\<open>return result if result else []\<close>\<close>

definition get_category_totals ::
  "database \<Rightarrow> nat \<Rightarrow> date option \<Rightarrow> date option \<Rightarrow> category_total list" where
  "get_category_totals db uid start_date end_date =
     (case category_totals_query db uid start_date end_date of
        Some result \<Rightarrow> result
      | None \<Rightarrow> [])"

record expense_stats =
  st_total :: rat
  st_average :: rat
  st_max_expense :: rat
  st_min_expense :: rat
  st_count :: nat

text \<open>
  \<open>SELECT COALESCE(SUM(amount), 0), COALESCE(AVG(amount), 0), COALESCE(MAX(amount), 0),
  COALESCE(MIN(amount), 0), COUNT(*)\<close>: over no rows SUM, AVG, MAX and MIN are NULL. The
  average is the exact quotient; MySQL carries it to four decimals more than the column.
\<close>

definition stats_of :: "rat list \<Rightarrow> expense_stats" where
  "stats_of xs =
     (case xs of
        [] \<Rightarrow> \<lparr>st_total = 0, st_average = 0, st_max_expense = 0, st_min_expense = 0, st_count = 0\<rparr>
      | x # r \<Rightarrow> \<lparr>st_total = sum_list xs, st_average = sum_list xs / of_nat (length xs),
                  st_max_expense = fold max r x, st_min_expense = fold min r x,
                  st_count = length xs\<rparr>)"

definition stats_query ::
  "database \<Rightarrow> nat \<Rightarrow> date option \<Rightarrow> date option \<Rightarrow> expense_stats option" where
  "stats_query db uid start_date end_date =
     (if \<not> reachable db then None
      else Some (stats_of (map amount
             (filter (\<lambda>e. user_id e = uid \<and> in_range start_date end_date e) (expenses db)))))"

definition get_expense_stats ::
  "database \<Rightarrow> nat \<Rightarrow> date option \<Rightarrow> date option \<Rightarrow> expense_stats" where
  "get_expense_stats db uid start_date end_date =
     (case stats_query db uid start_date end_date of
        Some row \<Rightarrow> row
      | None \<Rightarrow> \<lparr>st_total = 0, st_average = 0, st_max_expense = 0, st_min_expense = 0, st_count = 0\<rparr>)"

section \<open>Expense rows: read, update, delete (models/expense.py)\<close>

text \<open>An \<open>Expense\<close> object: the columns of its row and those of the joined category.\<close>

record expense = expense_row +
  obj_category_name :: "string option"
  category_icon :: "string option"
  category_color :: "string option"

definition Expense :: "expense_row \<Rightarrow> category_row \<Rightarrow> expense" where
  "Expense e c =
     \<lparr>expense_id = expense_id e, user_id = user_id e, category_id = category_id e,
      amount = amount e, description = description e, expense_date = expense_date e,
      payment_method = payment_method e, e_notes = e_notes e,
      obj_category_name = Some (category_name c), category_icon = Some (icon c),
      category_color = Some (color c)\<rparr>"

text \<open>
  \<open>get_by_id(expense_id, user_id=None)\<close>: the clause \<open>AND e.user_id = %s\<close> is appended
  only \<open>if user_id:\<close>, that is for an identifier that is neither \<open>None\<close> nor 0.
\<close>

fun owner_clause :: "nat option \<Rightarrow> expense_row \<Rightarrow> bool" where
  "owner_clause None e = True"
| "owner_clause (Some u) e = (u = 0 \<or> user_id e = u)"

definition get_by_id :: "database \<Rightarrow> nat \<Rightarrow> nat option \<Rightarrow> expense option" where
  "get_by_id db eid uid =
     (if \<not> reachable db then None
      else
        (case [(e, c). e \<leftarrow> expenses db, c \<leftarrow> categories db,
                 category_id e = c_category_id c \<and> expense_id e = eid \<and> owner_clause uid e] of
           [] \<Rightarrow> None
         | (e, c) # _ \<Rightarrow> Some (Expense e c)))"

text \<open>The keyword arguments of \<open>Expense.update\<close>; \<open>None\<close> is an argument left out.\<close>

record expense_update =
  new_category_id :: "nat option"
  new_amount :: "rat option"
  new_description :: "string option"
  new_expense_date :: "date option"
  new_payment_method :: "string option"
  new_notes :: "string option"

text \<open>The SET clause: one assignment for each argument that \<open>is not None\<close>.\<close>

definition set_clause :: "expense_update \<Rightarrow> expense_row \<Rightarrow> expense_row" where
  "set_clause f e =
     e\<lparr>category_id := (case new_category_id f of None \<Rightarrow> category_id e | Some v \<Rightarrow> v),
       amount := (case new_amount f of None \<Rightarrow> amount e | Some v \<Rightarrow> v),
       description := (case new_description f of None \<Rightarrow> description e | Some v \<Rightarrow> v),
       expense_date := (case new_expense_date f of None \<Rightarrow> expense_date e | Some v \<Rightarrow> v),
       payment_method := (case new_payment_method f of None \<Rightarrow> payment_method e | Some v \<Rightarrow> v),
       e_notes := (case new_notes f of None \<Rightarrow> e_notes e | Some v \<Rightarrow> Some v)\<rparr>"

text \<open>\<open>updates\<close> is not empty.\<close>

definition has_updates :: "expense_update \<Rightarrow> bool" where
  "has_updates f =
     (new_category_id f \<noteq> None \<or> new_amount f \<noteq> None \<or> new_description f \<noteq> None \<or>
      new_expense_date f \<noteq> None \<or> new_payment_method f \<noteq> None \<or> new_notes f \<noteq> None)"

text \<open>
  \<open>execute_query(query, params, fetch=False)\<close> commits and returns \<open>cursor.lastrowid\<close>:
  the AUTO\_INCREMENT value an INSERT generated, and 0 after an UPDATE or a DELETE,
  whatever the number of rows the statement matched. It returns \<open>None\<close> when the
  connection or the statement fails.
\<close>

definition exec_update :: "database \<Rightarrow> nat \<Rightarrow> expense_update \<Rightarrow> database \<times> nat option" where
  "exec_update db eid f =
     (if \<not> reachable db then (db, None)
      else (db\<lparr>expenses := map (\<lambda>e. if expense_id e = eid then set_clause f e else e)
                               (expenses db)\<rparr>, Some 0))"

definition exec_delete :: "database \<Rightarrow> (expense_row \<Rightarrow> bool) \<Rightarrow> database \<times> nat option" where
  "exec_delete db matches =
     (if \<not> reachable db then (db, None)
      else (db\<lparr>expenses := filter (\<lambda>e. \<not> matches e) (expenses db)\<rparr>, Some 0))"

text \<open>\<open>Expense.update(self, ...)\<close>: \<open>UPDATE expenses SET ... WHERE expense_id = %s\<close>.\<close>

definition Expense_update :: "database \<Rightarrow> expense \<Rightarrow> expense_update \<Rightarrow> database \<times> bool" where
  "Expense_update db self f =
     (if \<not> has_updates f then (db, False)
      else (case exec_update db (expense_id self) f of (db', result) \<Rightarrow> (db', result \<noteq> None)))"

text \<open>\<open>Expense.delete(self)\<close>: \<open>DELETE FROM expenses WHERE expense_id = %s\<close>.\<close>

definition Expense_delete :: "database \<Rightarrow> expense \<Rightarrow> database \<times> bool" where
  "Expense_delete db self =
     (case exec_delete db (\<lambda>e. expense_id e = expense_id self) of
        (db', result) \<Rightarrow> (db', result \<noteq> None))"

text \<open>\<open>DELETE FROM expenses WHERE expense_id = %s AND user_id = %s\<close>\<close>

definition delete_by_id :: "database \<Rightarrow> nat \<Rightarrow> nat \<Rightarrow> database \<times> bool" where
  "delete_by_id db eid uid =
     (case exec_delete db (\<lambda>e. expense_id e = eid \<and> user_id e = uid) of
        (db', result) \<Rightarrow> (db', result \<noteq> None))"

section \<open>ExpenseController (controllers/expense\_controller.py)\<close>

text \<open>
  The value given for \<open>amount\<close>: \<open>float(kwargs['amount'])\<close> yields a number or raises
  ValueError, for a string that is no number.
\<close>

datatype amount_input = Number rat | NotANumber

text \<open>
  The \<open>**kwargs\<close> of \<open>update_expense\<close>: \<open>None\<close> is a key that is not given.
\<close>

record update_kwargs =
  kw_category_id :: "nat option"
  kw_amount :: "amount_input option"
  kw_description :: "string option"
  kw_expense_date :: "date option"
  kw_payment_method :: "string option"
  kw_notes :: "string option"

definition to_update :: "update_kwargs \<Rightarrow> rat option \<Rightarrow> expense_update" where
  "to_update kw a =
     \<lparr>new_category_id = kw_category_id kw, new_amount = a,
      new_description = kw_description kw, new_expense_date = kw_expense_date kw,
      new_payment_method = kw_payment_method kw, new_notes = kw_notes kw\<rparr>"

definition finish_update :: "database \<Rightarrow> expense \<Rightarrow> expense_update \<Rightarrow> database \<times> bool \<times> string" where
  "finish_update db e f =
     (case Expense_update db e f of
        (db', success) \<Rightarrow>
          if success then (db', True, ''Expense updated successfully!'')
          else (db', False, ''Failed to update expense''))"

definition update_expense ::
  "database \<Rightarrow> nat \<Rightarrow> nat \<Rightarrow> update_kwargs \<Rightarrow> database \<times> bool \<times> string" where
  "update_expense db eid uid kw =
     (case get_by_id db eid (Some uid) of
        None \<Rightarrow> (db, False, ''Expense not found'')
      | Some e \<Rightarrow>
          (case kw_amount kw of
             None \<Rightarrow> finish_update db e (to_update kw None)
           | Some NotANumber \<Rightarrow> (db, False, ''Invalid amount'')
           | Some (Number a) \<Rightarrow>
               if a \<le> 0 then (db, False, ''Amount must be greater than 0'')
               else finish_update db e (to_update kw (Some a))))"

definition delete_expense :: "database \<Rightarrow> nat \<Rightarrow> nat \<Rightarrow> database \<times> bool \<times> string" where
  "delete_expense db eid uid =
     (case delete_by_id db eid uid of
        (db', success) \<Rightarrow>
          if success then (db', True, ''Expense deleted successfully!'')
          else (db', False, ''Failed to delete expense''))"

section \<open>Validation helpers (utils/helpers.py)\<close>

text \<open>
  A Python \<open>str\<close> is a list of characters; the characters of the model are the code points
  below 256, among which \<open>\d\<close> matches the ten ASCII digits only.
\<close>

definition letters :: string where
  "letters = ''abcdefghijklmnopqrstuvwxyzABCDEFGHIJKLMNOPQRSTUVWXYZ''"

definition digits :: string where
  "digits = ''0123456789''"

definition is_letter :: "char \<Rightarrow> bool" where
  "is_letter c = (c \<in> set letters)"

definition is_digit :: "char \<Rightarrow> bool" where
  "is_digit c = (c \<in> set digits)"

text \<open>\<open>[a-zA-Z0-9_]\<close>, \<open>[a-zA-Z0-9._%+-]\<close> and \<open>[a-zA-Z0-9.-]\<close>\<close>

definition is_word_char :: "char \<Rightarrow> bool" where
  "is_word_char c = (is_letter c \<or> is_digit c \<or> c = CHR ''_'')"

definition is_local_char :: "char \<Rightarrow> bool" where
  "is_local_char c = (is_letter c \<or> is_digit c \<or> c \<in> set ''._%+-'')"

definition is_domain_char :: "char \<Rightarrow> bool" where
  "is_domain_char c = (is_letter c \<or> is_digit c \<or> c \<in> set ''.-'')"

text \<open>
  In Python's \<open>re\<close>, \<open>$\<close> matches at the end of the string and also just before a newline
  that ends the string. No class of the two patterns holds the newline, so a string
  matches exactly when what stands before \<open>$\<close> does: the string without its final newline.
\<close>

definition before_dollar :: "string \<Rightarrow> string" where
  "before_dollar s = (if s \<noteq> [] \<and> last s = CHR 0x0A then butlast s else s)"

text \<open>\<open>re.match(r'^[a-zA-Z0-9_]{3,20}$', username) is not None\<close>\<close>

definition validate_username :: "string \<Rightarrow> bool" where
  "validate_username s =
     (let w = before_dollar s in 3 \<le> length w \<and> length w \<le> 20 \<and> list_all is_word_char w)"

text \<open>
  \<open>re.match(r'^[a-zA-Z0-9._%+-]+@[a-zA-Z0-9.-]+\.[a-zA-Z]{2,}$', email) is not None\<close>.
  The first class has no \<open>@\<close>, so the local part is all that stands before the first
  \<open>@\<close>; the last class has no dot, so the final letters are all that stands after the
  last dot.
\<close>

definition validate_email :: "string \<Rightarrow> bool" where
  "validate_email s =
     (let w = before_dollar s;
          local_part = takeWhile (\<lambda>c. c \<noteq> CHR ''@'') w;
          at_rest = dropWhile (\<lambda>c. c \<noteq> CHR ''@'') w;
          r = rev (tl at_rest);
          tld = rev (takeWhile (\<lambda>c. c \<noteq> CHR ''.'') r);
          dot_rest = dropWhile (\<lambda>c. c \<noteq> CHR ''.'') r;
          domain_part = rev (tl dot_rest)
      in local_part \<noteq> [] \<and> list_all is_local_char local_part \<and> at_rest \<noteq> [] \<and>
         dot_rest \<noteq> [] \<and> domain_part \<noteq> [] \<and> list_all is_domain_char domain_part \<and>
         2 \<le> length tld \<and> list_all is_letter tld)"

definition validate_password :: "string \<Rightarrow> bool \<times> string" where
  "validate_password pw =
     (if length pw < 6 then (False, ''Password must be at least 6 characters'')
      else if \<not> list_ex is_letter pw then (False, ''Password must contain at least one letter'')
      else if \<not> list_ex is_digit pw then (False, ''Password must contain at least one number'')
      else (True, ''Password is valid''))"


section \<open>User rows (models/user.py)\<close>

text \<open>A \<open>User\<close> object: the columns of its row but the password (and the timestamp).\<close>

record user =
  usr_id :: nat
  usr_username :: string
  usr_email :: string
  usr_full_name :: string
  usr_is_active :: bool

definition User :: "user_row \<Rightarrow> user" where
  "User r = \<lparr>usr_id = u_user_id r, usr_username = username r, usr_email = email r,
             usr_full_name = full_name r, usr_is_active = is_active r\<rparr>"


text \<open>\<open>SELECT COUNT(*) as count FROM users WHERE ...\<close>\<close>

definition count_users :: "database \<Rightarrow> (user_row \<Rightarrow> bool) \<Rightarrow> nat option" where
  "count_users db p = (if \<not> reachable db then None else Some (length (filter p (users db))))"

datatype field = Username_field | Email_field

text \<open>
  \<open>User.exists(username=None, email=None)\<close>: each query is made for an argument that is
  given and not empty; \<open>result and result[0]['count'] > 0\<close> is false for a failed query.
\<close>

definition found :: "nat option \<Rightarrow> bool" where
  "found result = (case result of None \<Rightarrow> False | Some n \<Rightarrow> 0 < n)"

definition exists_user :: "database \<Rightarrow> string \<Rightarrow> string \<Rightarrow> bool \<times> field option" where
  "exists_user db name mail =
     (if name \<noteq> [] \<and> found (count_users db (\<lambda>u. username u = name)) then (True, Some Username_field)
      else if mail \<noteq> [] \<and> found (count_users db (\<lambda>u. email u = mail)) then (True, Some Email_field)
      else (False, None))"

text \<open>
  \<open>INSERT INTO users (username, email, password, full_name) VALUES (...)\<close>. The new row
  gets the next AUTO\_INCREMENT identifier, above every identifier in the table, and the
  default of \<open>is_active\<close>; \<open>execute_query\<close> returns that identifier.
\<close>

definition next_user_id :: "database \<Rightarrow> nat" where
  "next_user_id db = Suc (fold max (map u_user_id (users db)) 0)"

definition exec_insert_user ::
  "database \<Rightarrow> string \<Rightarrow> string \<Rightarrow> string \<Rightarrow> string \<Rightarrow> database \<times> nat option" where
  "exec_insert_user db name mail hashed fname =
     (if \<not> reachable db then (db, None)
      else (db\<lparr>users := users db @
                  [\<lparr>u_user_id = next_user_id db, username = name, email = mail,
                    password = hashed, full_name = fname, is_active = True\<rparr>]\<rparr>,
            Some (next_user_id db)))"

text \<open>\<open>User.create\<close>: the object is returned \<open>if user_id:\<close>, else \<open>None\<close>.\<close>

definition create_user ::
  "(string \<Rightarrow> string) \<Rightarrow> database \<Rightarrow> string \<Rightarrow> string \<Rightarrow> string \<Rightarrow> string
     \<Rightarrow> database \<times> user option" where
  "create_user H db name mail pw fname =
     (case exec_insert_user db name mail (H pw) fname of
        (db', result) \<Rightarrow>
          if truthy_id result
          then (db', Some \<lparr>usr_id = (case result of Some i \<Rightarrow> i | None \<Rightarrow> 0), usr_username = name,
                           usr_email = mail, usr_full_name = fname, usr_is_active = True\<rparr>)
          else (db', None))"

text \<open>Python's truth test of an optional string: \<open>None\<close> and the empty string are false.\<close>

fun truthy_str :: "string option \<Rightarrow> bool" where
  "truthy_str None = False"
| "truthy_str (Some s) = (s \<noteq> [])"

text \<open>
  \<open>UPDATE users SET ... WHERE user_id = %s\<close>, with one assignment for each true argument:
  \<open>assign\<close> is the new value of a column.
\<close>

fun assign :: "string option \<Rightarrow> string \<Rightarrow> string" where
  "assign None old = old"
| "assign (Some s) old = (if s = [] then old else s)"

definition exec_update_user ::
  "database \<Rightarrow> nat \<Rightarrow> string option \<Rightarrow> string option \<Rightarrow> database \<times> nat option" where
  "exec_update_user db uid fname mail =
     (if \<not> reachable db then (db, None)
      else (db\<lparr>users := map (\<lambda>u. if u_user_id u = uid
                  then u\<lparr>full_name := assign fname (full_name u), email := assign mail (email u)\<rparr>
                  else u) (users db)\<rparr>, Some 0))"

definition User_update :: "database \<Rightarrow> user \<Rightarrow> string option \<Rightarrow> string option \<Rightarrow> database \<times> bool" where
  "User_update db self fname mail =
     (if \<not> truthy_str fname \<and> \<not> truthy_str mail then (db, False)
      else (case exec_update_user db (usr_id self) fname mail of
              (db', result) \<Rightarrow> (db', result \<noteq> None)))"

section \<open>AuthController (controllers/auth\_controller.py)\<close>

text \<open>The database and the class attribute \<open>_current_user\<close>.\<close>

record auth_state =
  store :: database
  current_user :: "user option"


definition register ::
  "(string \<Rightarrow> string) \<Rightarrow> auth_state \<Rightarrow> string \<Rightarrow> string \<Rightarrow> string \<Rightarrow> string \<Rightarrow> string
     \<Rightarrow> auth_state \<times> bool \<times> string \<times> user option" where
  "register H st name mail pw confirm_password fname =
     (if name = [] \<or> mail = [] \<or> pw = [] \<or> confirm_password = [] \<or> fname = []
      then (st, False, ''All fields are required'', None)
      else if \<not> validate_username name
      then (st, False, ''Username must be 3-20 characters (letters, numbers, underscore)'', None)
      else if \<not> validate_email mail
      then (st, False, ''Please enter a valid email address'', None)
      else if \<not> fst (validate_password pw)
      then (st, False, snd (validate_password pw), None)
      else if pw \<noteq> confirm_password
      then (st, False, ''Passwords do not match'', None)
      else
        (case exists_user (store st) name mail of
           (True, fld) \<Rightarrow>
             if fld = Some Username_field then (st, False, ''Username already taken'', None)
             else (st, False, ''Email already registered'', None)
         | (False, _) \<Rightarrow>
             (case create_user H (store st) name mail pw fname of
                (db', Some u) \<Rightarrow>
                  (\<lparr>store = db', current_user = Some u\<rparr>, True,
                   ''Registration successful! Welcome!'', Some u)
              | (db', None) \<Rightarrow>
                  (st\<lparr>store := db'\<rparr>, False, ''Registration failed. Please try again.'', None))))"

section \<open>A sample database\<close>

text \<open>
  Two users, three categories and four expenses: Alice (user 11) spent 100.00, 250.50 and
  49.50 on food in March 2024, Bob (user 12) spent 80.00 on transport in April 2024.
  \<open>sample_hash\<close> stands for the digest in the examples.
\<close>

definition sample_hash :: "string \<Rightarrow> string" where
  "sample_hash s = ''sha256:'' @ s"

definition sample_db :: database where
  "sample_db =
     \<lparr>users =
        [\<lparr>u_user_id = 11, username = ''alice'', email = ''alice@example.com'',
          password = sample_hash ''wonder1and'', full_name = ''Alice Liddell'', is_active = True\<rparr>,
         \<lparr>u_user_id = 12, username = ''bob'', email = ''bob@example.com'',
          password = sample_hash ''bui1der'', full_name = ''Bob Stone'', is_active = True\<rparr>],
      categories =
        [\<lparr>c_category_id = 21, category_name = ''Food'', icon = ''F'', color = ''#FF6B6B''\<rparr>,
         \<lparr>c_category_id = 22, category_name = ''Transport'', icon = ''T'', color = ''#4ECDC4''\<rparr>,
         \<lparr>c_category_id = 23, category_name = ''Bills'', icon = ''B'', color = ''#667EEA''\<rparr>],
      expenses =
        [\<lparr>expense_id = 101, user_id = 11, category_id = 21, amount = 100, description = ''Groceries'',
          expense_date = \<lparr>year = 2024, month = 3, day = 5\<rparr>, payment_method = ''Cash'',
          e_notes = None\<rparr>,
         \<lparr>expense_id = 102, user_id = 11, category_id = 21, amount = 501 / 2, description = ''Dinner'',
          expense_date = \<lparr>year = 2024, month = 3, day = 12\<rparr>, payment_method = ''UPI'',
          e_notes = Some ''birthday''\<rparr>,
         \<lparr>expense_id = 103, user_id = 11, category_id = 21, amount = 99 / 2, description = ''Lunch'',
          expense_date = \<lparr>year = 2024, month = 3, day = 20\<rparr>, payment_method = ''Cash'',
          e_notes = None\<rparr>,
         \<lparr>expense_id = 104, user_id = 12, category_id = 22, amount = 80, description = ''Train'',
          expense_date = \<lparr>year = 2024, month = 4, day = 2\<rparr>, payment_method = ''Debit Card'',
          e_notes = None\<rparr>],
      reachable = True\<rparr>"

text \<open>The first and the last day of March 2024.\<close>

definition march_2024 :: "date \<times> date" where
  "march_2024 = (\<lparr>year = 2024, month = 3, day = 1\<rparr>, \<lparr>year = 2024, month = 3, day = 31\<rparr>)"

text \<open>\<open>update()\<close> called with no argument at all.\<close>

definition no_fields :: expense_update where
  "no_fields = \<lparr>new_category_id = None, new_amount = None, new_description = None,
                new_expense_date = None, new_payment_method = None, new_notes = None\<rparr>"

text \<open>
  \<open>Expense(expense_id=104, user_id=11)\<close>: an object made by the constructor, which names
  Alice as its user and Bob's expense as its row.
\<close>

definition foreign_handle :: expense where
  "foreign_handle =
     \<lparr>expense_id = 104, user_id = 11, category_id = 21, amount = 1, description = [],
      expense_date = \<lparr>year = 2024, month = 1, day = 1\<rparr>, payment_method = ''Cash'',
      e_notes = None, obj_category_name = None, category_icon = None, category_color = None\<rparr>"

text \<open>\<open>update_expense(..., description='Weekly groceries')\<close>\<close>

definition sample_kwargs :: update_kwargs where
  "sample_kwargs =
     \<lparr>kw_category_id = None, kw_amount = None, kw_description = Some ''Weekly groceries'',
      kw_expense_date = None, kw_payment_method = None, kw_notes = None\<rparr>"

text \<open>The sample database with nobody logged in.\<close>

definition sample_state :: auth_state where
  "sample_state = \<lparr>store = sample_db, current_user = None\<rparr>"

section \<open>Properties\<close>

lemma dict_set_keys: "k \<in> fst ` set d \<Longrightarrow> map fst (dict_set d k v) = map fst d"
  by (induction d) force+

lemma dict_set_other: "k' \<noteq> k \<Longrightarrow> map_of (dict_set d k v) k' = map_of d k'"
  by (induction d) auto

lemma fold_dict_set_keys:
  "\<forall>r \<in> set rs. key r \<in> fst ` set d \<Longrightarrow>
   map fst (fold (\<lambda>row d. dict_set d (key row) row) rs d) = map fst d"
proof (induction rs arbitrary: d)
  case Nil
  then show ?case by simp
next
  case (Cons r rs)
  have k: "map fst (dict_set d (key r) r) = map fst d"
    using Cons.prems by (simp add: dict_set_keys)
  have "\<forall>x \<in> set rs. key x \<in> fst ` set (dict_set d (key r) r)"
    using Cons.prems k by (metis list.set_intros(2) list.set_map)
  from Cons.IH [OF this] k show ?case by simp
qed

lemma fold_dict_set_other:
  "\<forall>r \<in> set rs. key r \<noteq> k \<Longrightarrow>
   map_of (fold (\<lambda>row d. dict_set d (key row) row) rs d) k = map_of d k"
  by (induction rs arbitrary: d) (auto simp: dict_set_other)

lemma dict_set_inv:
  "\<forall>(k, v) \<in> set d. key v = k \<Longrightarrow> \<forall>(k, v) \<in> set (dict_set d (key r) r). key v = k"
  by (induction d) (auto split: if_splits)

lemma fold_dict_set_inv:
  "\<forall>(k, v) \<in> set d. key v = k \<Longrightarrow>
   \<forall>(k, v) \<in> set (fold (\<lambda>row d. dict_set d (key row) row) rs d). key v = k"
proof (induction rs arbitrary: d)
  case Nil
  then show ?case by simp
next
  case (Cons r rs)
  from Cons.IH [OF dict_set_inv [OF Cons.prems]] show ?case by simp
qed

lemma keyed_values: "\<forall>(k, v) \<in> set d. key v = k \<Longrightarrow> map key (map snd d) = map fst d"
  by (induction d) auto

lemma empty_months_keys: "map fst empty_months = [1..<13]"
  by (simp add: empty_months_def comp_def)

lemma empty_months_inv: "\<forall>(k, v) \<in> set empty_months. mt_month v = k"
  by (auto simp: empty_months_def)

lemma monthly_query_months:
  assumes "monthly_query db uid yr = Some result" "r \<in> set result"
  shows "\<exists>e \<in> set (expenses db). user_id e = uid \<and> year (expense_date e) = yr
           \<and> month (expense_date e) = mt_month r"
proof -
  from assms have "mt_month r \<in> (\<lambda>e. month (expense_date e)) `
      set (filter (\<lambda>e. user_id e = uid \<and> year (expense_date e) = yr) (expenses db))"
    by (auto simp: monthly_query_def Let_def split: if_splits)
  then show ?thesis by auto
qed

lemma monthly_data_keys:
  assumes "\<forall>e \<in> set (expenses db). valid_date (expense_date e)"
  shows "map fst (case monthly_query db uid yr of
           None \<Rightarrow> empty_months
         | Some result \<Rightarrow> fold (\<lambda>row d. dict_set d (mt_month row) row) result empty_months)
         = [1..<13]"
proof (cases "monthly_query db uid yr")
  case None
  then show ?thesis by (simp add: empty_months_keys)
next
  case (Some result)
  have "\<forall>r \<in> set result. mt_month r \<in> fst ` set empty_months"
  proof
    fix r assume "r \<in> set result"
    from monthly_query_months [OF Some this] assms
    have "1 \<le> mt_month r \<and> mt_month r \<le> 12" by (auto simp: valid_date_def)
    then have "mt_month r \<in> set [1..<13]" by simp
    then show "mt_month r \<in> fst ` set empty_months"
      by (metis empty_months_keys list.set_map)
  qed
  from fold_dict_set_keys [OF this] Some show ?thesis by (simp add: empty_months_keys)
qed

subsection \<open>Monthly totals\<close>

text \<open>
  Claim C1. For every user and year, \<open>get_monthly_totals\<close> returns exactly 12 entries,
  one per calendar month, months 1 to 12 in order, and the entry of a month in which the
  user has no expense that year has total 0 and count 0. The stored dates are calendar
  dates. The result is the same zero-filled list when the query fails.
\<close>

theorem get_monthly_totals_twelve:
  assumes "\<forall>e \<in> set (expenses db). valid_date (expense_date e)"
  shows "length (get_monthly_totals db uid yr) = 12 \<and>
         map mt_month (get_monthly_totals db uid yr) = [1..<13] \<and>
         (\<forall>m \<in> {1..12}.
            (\<forall>e \<in> set (expenses db). user_id e = uid \<and> year (expense_date e) = yr
                 \<longrightarrow> month (expense_date e) \<noteq> m)
            \<longrightarrow> get_monthly_totals db uid yr ! (m - 1)
                  = \<lparr>mt_month = m, mt_total = 0, mt_count = 0\<rparr>)"
proof -
  define md where "md = (case monthly_query db uid yr of
           None \<Rightarrow> empty_months
         | Some result \<Rightarrow> fold (\<lambda>row d. dict_set d (mt_month row) row) result empty_months)"
  have res: "get_monthly_totals db uid yr = map snd md"
    by (simp add: get_monthly_totals_def md_def)
  have keys: "map fst md = [1..<13]"
    unfolding md_def by (rule monthly_data_keys [OF assms])
  have inv: "\<forall>(k, v) \<in> set md. mt_month v = k"
    unfolding md_def using empty_months_inv
    by (auto split: option.splits dest: fold_dict_set_inv [where key = mt_month])
  have months: "map mt_month (get_monthly_totals db uid yr) = [1..<13]"
    using keyed_values [OF inv] keys res by simp
  have len: "length md = 12"
  proof -
    have "length (map fst md) = length [1..<13::nat]" using keys by simp
    then show ?thesis by simp
  qed
  have zero: "get_monthly_totals db uid yr ! (m - 1) = \<lparr>mt_month = m, mt_total = 0, mt_count = 0\<rparr>"
    if m: "m \<in> {1..12}"
      and none: "\<forall>e \<in> set (expenses db). user_id e = uid \<and> year (expense_date e) = yr
                 \<longrightarrow> month (expense_date e) \<noteq> m" for m
  proof -
    have same: "map_of md m = map_of empty_months m"
    proof (cases "monthly_query db uid yr")
      case None
      then show ?thesis by (simp add: md_def)
    next
      case (Some result)
      have "\<forall>r \<in> set result. mt_month r \<noteq> m"
        using monthly_query_months [OF Some] none by metis
      from fold_dict_set_other [OF this] Some show ?thesis by (simp add: md_def)
    qed
    have "(m, \<lparr>mt_month = m, mt_total = 0, mt_count = 0\<rparr>) \<in> set empty_months"
      using m by (auto simp: empty_months_def)
    moreover have de: "distinct (map fst empty_months)" by (simp add: empty_months_keys)
    ultimately have "map_of empty_months m = Some \<lparr>mt_month = m, mt_total = 0, mt_count = 0\<rparr>"
      by (simp add: map_of_eq_Some_iff)
    with same have look: "map_of md m = Some \<lparr>mt_month = m, mt_total = 0, mt_count = 0\<rparr>" by simp
    have i: "m - 1 < length md" using m len by auto
    have "fst (md ! (m - 1)) = map fst md ! (m - 1)" using i by simp
    also have "\<dots> = m" using keys m by (simp add: nth_upt)
    finally have f: "fst (md ! (m - 1)) = m" .
    have "distinct (map fst md)" using keys by simp
    moreover have "md ! (m - 1) \<in> set md" using i by simp
    ultimately have "map_of md (fst (md ! (m - 1))) = Some (snd (md ! (m - 1)))"
      by (metis map_of_eq_Some_iff prod.collapse)
    with f look have "snd (md ! (m - 1)) = \<lparr>mt_month = m, mt_total = 0, mt_count = 0\<rparr>" by simp
    then show ?thesis using res i by simp
  qed
  from months have "length (get_monthly_totals db uid yr) = 12"
    using len res by simp
  with months zero show ?thesis by blast
qed


theorem get_monthly_totals_twelve_witness:
  "list_all valid_date (map expense_date (expenses sample_db)) \<and>
   length (get_monthly_totals sample_db 11 2024) = 12 \<and>
   map mt_month (get_monthly_totals sample_db 11 2024) = [1..<13] \<and>
   get_monthly_totals sample_db 11 2024 ! (4 - 1) = \<lparr>mt_month = 4, mt_total = 0, mt_count = 0\<rparr>"
proof -
  have v: "\<forall>e \<in> set (expenses sample_db). valid_date (expense_date e)"
    by (simp add: sample_db_def valid_date_def)
  have m: "(4::nat) \<in> {1..12}" by simp
  have n: "\<forall>e \<in> set (expenses sample_db). user_id e = 11 \<and> year (expense_date e) = 2024
             \<longrightarrow> month (expense_date e) \<noteq> 4"
    by (simp add: sample_db_def)
  have l: "list_all valid_date (map expense_date (expenses sample_db))"
    by (simp add: sample_db_def valid_date_def)
  from get_monthly_totals_twelve [OF v, of 11 2024] m n l show ?thesis by blast
qed




subsection \<open>Category totals\<close>



lemma sorted_desc_sort_key:
  "sorted_wrt (\<lambda>a b. k b \<le> k a) (sort_key (\<lambda>r. - k r) (xs :: 'a list))" for k :: "'a \<Rightarrow> rat"
proof -
  have "sorted (map (\<lambda>r. - k r) (sort_key (\<lambda>r. - k r) xs))" by (rule sorted_sort_key)
  then show ?thesis by (simp add: sorted_map)
qed

text \<open>
  Claim C8. When the query executes, \<open>get_category_totals\<close> returns one entry per
  category, the entry of a category being the sum and the number of the user's expenses
  in range in it, hence total 0 and count 0 for a category without any; and the list is
  sorted by total, descending.
\<close>

theorem category_totals_complete_sorted:
  assumes "reachable db"
  shows "mset (map ct_category_id (get_category_totals db uid start_date end_date))
           = mset (map c_category_id (categories db)) \<and>
         length (get_category_totals db uid start_date end_date) = length (categories db) \<and>
         (\<forall>c \<in> set (categories db).
            \<lparr>ct_category_id = c_category_id c, ct_category_name = category_name c,
             ct_icon = icon c, ct_color = color c,
             ct_total = sum_list (map amount (joined db uid start_date end_date c)),
             ct_count = length (joined db uid start_date end_date c)\<rparr>
              \<in> set (get_category_totals db uid start_date end_date)) \<and>
         (\<forall>c \<in> set (categories db).
            (\<forall>e \<in> set (expenses db). \<not> (category_id e = c_category_id c \<and> user_id e = uid \<and>
                 in_range start_date end_date e))
            \<longrightarrow> \<lparr>ct_category_id = c_category_id c, ct_category_name = category_name c,
                  ct_icon = icon c, ct_color = color c, ct_total = 0, ct_count = 0\<rparr>
                 \<in> set (get_category_totals db uid start_date end_date)) \<and>
         sorted_wrt (\<lambda>a b. ct_total b \<le> ct_total a)
           (get_category_totals db uid start_date end_date)"
proof -
  define row where "row = (\<lambda>c. \<lparr>ct_category_id = c_category_id c, ct_category_name = category_name c,
             ct_icon = icon c, ct_color = color c,
             ct_total = sum_list (map amount (joined db uid start_date end_date c)),
             ct_count = length (joined db uid start_date end_date c)\<rparr>)"
  have res: "get_category_totals db uid start_date end_date
             = sort_key (\<lambda>r. - ct_total r) (map row (categories db))"
    using assms by (simp add: get_category_totals_def category_totals_query_def row_def)
  have ids: "map ct_category_id (map row (categories db)) = map c_category_id (categories db)"
    by (simp add: row_def comp_def)
  have "mset (map ct_category_id (sort_key (\<lambda>r. - ct_total r) (map row (categories db))))
        = mset (map ct_category_id (map row (categories db)))"
    by (simp del: map_map)
  also have "\<dots> = mset (map c_category_id (categories db))"
    by (simp only: ids)
  finally have one: "mset (map ct_category_id (get_category_totals db uid start_date end_date))
           = mset (map c_category_id (categories db))"
    by (simp only: res)
  have len: "length (get_category_totals db uid start_date end_date) = length (categories db)"
    using res by simp
  have all: "\<forall>c \<in> set (categories db). row c \<in> set (get_category_totals db uid start_date end_date)"
    using res by simp
  have zero: "\<forall>c \<in> set (categories db).
            (\<forall>e \<in> set (expenses db). \<not> (category_id e = c_category_id c \<and> user_id e = uid \<and>
                 in_range start_date end_date e))
            \<longrightarrow> \<lparr>ct_category_id = c_category_id c, ct_category_name = category_name c,
                  ct_icon = icon c, ct_color = color c, ct_total = 0, ct_count = 0\<rparr>
                 \<in> set (get_category_totals db uid start_date end_date)"
  proof (intro ballI impI)
    fix c assume c: "c \<in> set (categories db)"
      and none: "\<forall>e \<in> set (expenses db). \<not> (category_id e = c_category_id c \<and> user_id e = uid \<and>
                 in_range start_date end_date e)"
    have "joined db uid start_date end_date c = []"
      using none by (auto simp: joined_def filter_empty_conv)
    then have "row c = \<lparr>ct_category_id = c_category_id c, ct_category_name = category_name c,
                  ct_icon = icon c, ct_color = color c, ct_total = 0, ct_count = 0\<rparr>"
      by (simp add: row_def)
    with all c show "\<lparr>ct_category_id = c_category_id c, ct_category_name = category_name c,
                  ct_icon = icon c, ct_color = color c, ct_total = 0, ct_count = 0\<rparr>
                 \<in> set (get_category_totals db uid start_date end_date)" by metis
  qed
  have srt: "sorted_wrt (\<lambda>a b. ct_total b \<le> ct_total a)
           (get_category_totals db uid start_date end_date)"
    unfolding res by (rule sorted_desc_sort_key)
  from one len all zero srt show ?thesis unfolding row_def by blast
qed


theorem category_totals_complete_sorted_witness:
  "reachable sample_db \<and>
   map ct_category_id (get_category_totals sample_db 11 None None) = [21, 22, 23] \<and>
   map ct_total (get_category_totals sample_db 11 None None) = [400, 0, 0] \<and>
   map ct_count (get_category_totals sample_db 11 None None) = [3, 0, 0] \<and>
   sorted_wrt (\<lambda>a b. ct_total b \<le> ct_total a) (get_category_totals sample_db 11 None None)"
proof -
  have r: "reachable sample_db" by (simp add: sample_db_def)
  have "get_category_totals sample_db 11 None None =
     [\<lparr>ct_category_id = 21, ct_category_name = ''Food'', ct_icon = ''F'', ct_color = ''#FF6B6B'',
       ct_total = 400, ct_count = 3\<rparr>,
      \<lparr>ct_category_id = 22, ct_category_name = ''Transport'', ct_icon = ''T'', ct_color = ''#4ECDC4'',
       ct_total = 0, ct_count = 0\<rparr>,
      \<lparr>ct_category_id = 23, ct_category_name = ''Bills'', ct_icon = ''B'', ct_color = ''#667EEA'',
       ct_total = 0, ct_count = 0\<rparr>]"
    by (simp add: get_category_totals_def category_totals_query_def joined_def in_range_def
        sample_db_def)
  with category_totals_complete_sorted [OF r, of 11 None None] r show ?thesis by simp
qed

subsection \<open>Statistics\<close>

lemma stats_of_mset:
  assumes "xs \<noteq> []"
  shows "stats_of xs = \<lparr>st_total = sum_mset (mset xs),
           st_average = sum_mset (mset xs) / of_nat (size (mset xs)),
           st_max_expense = Max (set_mset (mset xs)), st_min_expense = Min (set_mset (mset xs)),
           st_count = size (mset xs)\<rparr>"
proof -
  from assms obtain x r where xs: "xs = x # r" by (cases xs) auto
  have "fold max r x = Max (set (x # r))" by (simp only: Max.set_eq_fold)
  moreover have "fold min r x = Min (set (x # r))" by (simp only: Min.set_eq_fold)
  moreover have "sum_list xs = sum_mset (mset xs)" by (simp only: sum_mset_sum_list)
  ultimately show ?thesis unfolding xs stats_of_def by simp
qed

text \<open>
  Claim C9, as amended. For a user whose expenses in the queried range are 100.00, 250.50
  and 49.50, in any order, \<open>get_expense_stats\<close> returns total 400.00, average 400/3,
  which is 133.33 when rounded to 2 decimals, max 250.50, min 49.50 and count 3, when the
  query executes.
\<close>

theorem stats_three_expenses:
  assumes "reachable db"
    and "mset (map amount (filter (\<lambda>e. user_id e = uid \<and> in_range start_date end_date e)
           (expenses db))) = {#100, 501 / 2, 99 / 2#}"
  shows "get_expense_stats db uid start_date end_date
           = \<lparr>st_total = 400, st_average = 400 / 3, st_max_expense = 501 / 2,
              st_min_expense = 99 / 2, st_count = 3\<rparr> \<and>
         round (100 * st_average (get_expense_stats db uid start_date end_date)) = 13333"
proof -
  define xs where "xs = map amount (filter (\<lambda>e. user_id e = uid \<and> in_range start_date end_date e)
           (expenses db))"
  have m: "mset xs = {#100, 501 / 2, 99 / 2#}" using assms(2) by (simp add: xs_def)
  then have ne: "xs \<noteq> []" by auto
  have "get_expense_stats db uid start_date end_date = stats_of xs"
    using assms(1) by (simp add: get_expense_stats_def stats_query_def xs_def)
  also have "\<dots> = \<lparr>st_total = 400, st_average = 400 / 3, st_max_expense = 501 / 2,
              st_min_expense = 99 / 2, st_count = 3\<rparr>"
    unfolding stats_of_mset [OF ne] m by simp
  finally have eq: "get_expense_stats db uid start_date end_date
           = \<lparr>st_total = 400, st_average = 400 / 3, st_max_expense = 501 / 2,
              st_min_expense = 99 / 2, st_count = 3\<rparr>" .
  have "round (100 * (400 / 3 :: rat)) = 13333" by (simp add: round_def floor_eq_iff)
  with eq show ?thesis by simp
qed

theorem stats_three_expenses_witness:
  "reachable sample_db \<and>
   get_expense_stats sample_db 11 None None
     = \<lparr>st_total = 400, st_average = 400 / 3, st_max_expense = 501 / 2,
        st_min_expense = 99 / 2, st_count = 3\<rparr> \<and>
   round (100 * st_average (get_expense_stats sample_db 11 None None)) = 13333"
proof -
  have r: "reachable sample_db" by (simp add: sample_db_def)
  have m: "mset (map amount (filter (\<lambda>e. user_id e = 11 \<and> in_range None None e)
           (expenses sample_db))) = {#100, 501 / 2, 99 / 2#}"
    by (simp add: sample_db_def in_range_def)
  from stats_three_expenses [OF r m] r show ?thesis by blast
qed

text \<open>
  The claim as stated fails on the sample database: Alice's expenses of March 2024 are the
  three of the scenario, and their average does not round to 133.50.
\<close>

lemma sample_march: "get_expense_stats sample_db 11 (Some (fst march_2024)) (Some (snd march_2024))
           = \<lparr>st_total = 400, st_average = 400 / 3, st_max_expense = 501 / 2,
              st_min_expense = 99 / 2, st_count = 3\<rparr>"
    by (simp add: get_expense_stats_def stats_query_def stats_of_def sample_db_def in_range_def
        date_le_def march_2024_def)

theorem stats_average_counterexample:
  "st_count (get_expense_stats sample_db 11 (Some (fst march_2024)) (Some (snd march_2024))) = 3 \<and>
   st_total (get_expense_stats sample_db 11 (Some (fst march_2024)) (Some (snd march_2024))) = 400 \<and>
   st_average (get_expense_stats sample_db 11 (Some (fst march_2024)) (Some (snd march_2024)))
     = 400 / 3 \<and>
   round (100 * st_average
     (get_expense_stats sample_db 11 (Some (fst march_2024)) (Some (snd march_2024)))) \<noteq> 13350"
proof -
  have "round (100 * (400 / 3 :: rat)) \<noteq> 13350" by (simp add: round_def floor_eq_iff)
  then show ?thesis by (simp only: sample_march expense_stats.simps) simp
qed

subsection \<open>Updates without fields\<close>

text \<open>
  Claim C10. \<open>Expense.update\<close> with every optional argument absent, and \<open>User.update\<close>
  with both arguments absent (or empty), return False and leave the database as it is,
  whether it is reachable or not: no statement is executed.
\<close>

theorem update_without_fields_fails:
  "Expense_update db self no_fields = (db, False) \<and>
   User_update db user None None = (db, False) \<and>
   User_update db user (Some []) (Some []) = (db, False)"
  by (simp add: Expense_update_def has_updates_def no_fields_def User_update_def)


theorem update_without_fields_fails_witness:
  "Expense_update sample_db foreign_handle no_fields = (sample_db, False) \<and>
   User_update sample_db (User (hd (users sample_db))) None None = (sample_db, False)"
  using update_without_fields_fails [of sample_db foreign_handle "User (hd (users sample_db))"]
  by simp

subsection \<open>Ownership of expense rows\<close>

lemma get_by_id_Some:
  assumes "get_by_id db eid uid = Some x"
  shows "reachable db \<and> (\<exists>e \<in> set (expenses db). \<exists>c \<in> set (categories db).
           x = Expense e c \<and> expense_id e = eid \<and> owner_clause uid e)"
proof -
  define js where "js = [(e, c). e \<leftarrow> expenses db, c \<leftarrow> categories db,
                 category_id e = c_category_id c \<and> expense_id e = eid \<and> owner_clause uid e]"
  from assms have r: "reachable db" by (auto simp: get_by_id_def split: if_splits)
  from assms r obtain e c rest where j: "js = (e, c) # rest" and x: "x = Expense e c"
    by (auto simp: get_by_id_def js_def split: list.splits)
  have "(e, c) \<in> set js" using j by simp
  then have "e \<in> set (expenses db) \<and> c \<in> set (categories db) \<and> expense_id e = eid \<and> owner_clause uid e"
    unfolding js_def by auto
  with r x show ?thesis by blast
qed

lemma Expense_fields [simp]: "expense_id (Expense e c) = expense_id e" "user_id (Expense e c) = user_id e"
  by (simp_all add: Expense_def)

lemma get_by_id_None:
  assumes "uid \<noteq> 0" "\<forall>e \<in> set (expenses db). expense_id e = eid \<longrightarrow> user_id e \<noteq> uid"
  shows "get_by_id db eid (Some uid) = None"
proof (cases "get_by_id db eid (Some uid)")
  case None
  then show ?thesis .
next
  case (Some x)
  from get_by_id_Some [OF Some] assms show ?thesis by auto
qed

lemma Expense_update_result:
  "Expense_update db self f =
     (if has_updates f \<and> reachable db
      then (db\<lparr>expenses := map (\<lambda>e. if expense_id e = expense_id self then set_clause f e else e)
                               (expenses db)\<rparr>, True)
      else (db, False))"
  by (simp add: Expense_update_def exec_update_def)

lemma delete_by_id_result:
  "delete_by_id db eid uid =
     (if reachable db
      then (db\<lparr>expenses := filter (\<lambda>e. \<not> (expense_id e = eid \<and> user_id e = uid)) (expenses db)\<rparr>, True)
      else (db, False))"
  by (simp add: delete_by_id_def exec_delete_def)

lemma Expense_delete_result:
  "Expense_delete db self =
     (if reachable db
      then (db\<lparr>expenses := filter (\<lambda>e. expense_id e \<noteq> expense_id self) (expenses db)\<rparr>, True)
      else (db, False))"
  by (simp add: Expense_delete_def exec_delete_def)

lemma set_clause_keys [simp]:
  "expense_id (set_clause f e) = expense_id e" "user_id (set_clause f e) = user_id e"
  by (simp_all add: set_clause_def)

lemma update_expense_cases:
  "update_expense db eid uid kw = (db', ok, msg) \<Longrightarrow>
   (db' = db \<and> \<not> ok) \<or>
   (ok \<and> reachable db \<and> msg = ''Expense updated successfully!'' \<and>
    (\<exists>x a. get_by_id db eid (Some uid) = Some x \<and>
       (case kw_amount kw of None \<Rightarrow> a = None | Some NotANumber \<Rightarrow> False
          | Some (Number v) \<Rightarrow> a = Some v \<and> 0 < v) \<and>
       has_updates (to_update kw a) \<and>
       db' = db\<lparr>expenses := map (\<lambda>e. if expense_id e = expense_id x then set_clause (to_update kw a) e else e)
                               (expenses db)\<rparr>))"
  by (auto simp: update_expense_def finish_update_def Expense_update_result
      split: option.splits amount_input.splits if_splits)


lemma filter_map_unchanged:
  assumes "\<And>e. e \<in> set xs \<Longrightarrow> P e \<Longrightarrow> g e = e" "\<And>e. P (g e) = P e"
  shows "filter P (map g xs) = filter P xs"
  using assms by (induction xs) auto

text \<open>
  Claim C4, as amended. \<open>delete_by_id\<close> removes exactly the rows that match both the
  expense id and the user id, so with an id owned by another user it removes no row; it
  reports success exactly when the statement executed, whether or not a row was removed,
  and \<open>delete_expense\<close> turns that into its message.
\<close>

theorem delete_by_id_effect:
  "snd (delete_by_id db eid uid) = reachable db \<and>
   expenses (fst (delete_by_id db eid uid)) =
     (if reachable db
      then filter (\<lambda>e. \<not> (expense_id e = eid \<and> user_id e = uid)) (expenses db)
      else expenses db) \<and>
   users (fst (delete_by_id db eid uid)) = users db \<and>
   categories (fst (delete_by_id db eid uid)) = categories db \<and>
   ((\<forall>e \<in> set (expenses db). expense_id e = eid \<longrightarrow> user_id e \<noteq> uid)
      \<longrightarrow> fst (delete_by_id db eid uid) = db) \<and>
   delete_expense db eid uid =
     (fst (delete_by_id db eid uid), reachable db,
      if reachable db then ''Expense deleted successfully!'' else ''Failed to delete expense'')"
proof -
  have "filter (\<lambda>e. \<not> (expense_id e = eid \<and> user_id e = uid)) (expenses db) = expenses db"
    if "\<forall>e \<in> set (expenses db). expense_id e = eid \<longrightarrow> user_id e \<noteq> uid"
    using that by (simp add: filter_id_conv)
  then show ?thesis
    by (simp add: delete_by_id_result delete_expense_def)
qed

theorem delete_by_id_effect_witness:
  "delete_expense sample_db 101 11 = (fst (delete_by_id sample_db 101 11), True, ''Expense deleted successfully!'') \<and>
   map expense_id (expenses (fst (delete_by_id sample_db 101 11))) = [102, 103, 104] \<and>
   fst (delete_by_id sample_db 104 11) = sample_db"
proof -
  have r: "reachable sample_db" by (simp add: sample_db_def)
  have n: "\<forall>e \<in> set (expenses sample_db). expense_id e = 104 \<longrightarrow> user_id e \<noteq> 11"
    by (simp add: sample_db_def)
  have m: "map expense_id (filter (\<lambda>e. \<not> (expense_id e = 101 \<and> user_id e = 11)) (expenses sample_db))
           = [102, 103, 104]"
    by (simp add: sample_db_def)
  from delete_by_id_effect [of sample_db 101 11] delete_by_id_effect [of sample_db 104 11] r n m
  show ?thesis by simp
qed

text \<open>
  The claim as stated fails on the sample database: Alice deleting Bob's expense 104
  removes nothing and is told that the expense was deleted.
\<close>

theorem delete_foreign_counterexample:
  "map expense_id (expenses sample_db) = [101, 102, 103, 104] \<and>
   map user_id (expenses sample_db) = [11, 11, 11, 12] \<and>
   delete_expense sample_db 104 11 = (sample_db, True, ''Expense deleted successfully!'')"
  by (simp add: delete_expense_def delete_by_id_result sample_db_def)

text \<open>
  Claim C3, as amended. \<open>get_by_id\<close> given a user id other than 0 returns only a row of
  that user; \<open>delete_by_id\<close> and \<open>delete_expense\<close> leave the rows of every other user as
  they are, and so does \<open>update_expense\<close> for a user id other than 0 when expense ids are
  unique. \<open>Expense.update\<close> and \<open>Expense.delete\<close> select by expense id alone: they leave
  the rows of every other expense id as they are, whoever owns the row they change.
\<close>

theorem ownership_filters:
  "(uid \<noteq> 0 \<and> get_by_id db eid (Some uid) = Some x \<longrightarrow> user_id x = uid \<and> expense_id x = eid) \<and>
   filter (\<lambda>e. user_id e \<noteq> uid) (expenses (fst (delete_by_id db eid uid)))
     = filter (\<lambda>e. user_id e \<noteq> uid) (expenses db) \<and>
   filter (\<lambda>e. user_id e \<noteq> uid) (expenses (fst (delete_expense db eid uid)))
     = filter (\<lambda>e. user_id e \<noteq> uid) (expenses db) \<and>
   (uid \<noteq> 0 \<and> distinct (map expense_id (expenses db)) \<longrightarrow>
      filter (\<lambda>e. user_id e \<noteq> uid) (expenses (fst (update_expense db eid uid kw)))
        = filter (\<lambda>e. user_id e \<noteq> uid) (expenses db)) \<and>
   filter (\<lambda>e. expense_id e \<noteq> expense_id self) (expenses (fst (Expense_update db self f)))
     = filter (\<lambda>e. expense_id e \<noteq> expense_id self) (expenses db) \<and>
   filter (\<lambda>e. expense_id e \<noteq> expense_id self) (expenses (fst (Expense_delete db self)))
     = filter (\<lambda>e. expense_id e \<noteq> expense_id self) (expenses db)"
proof -
  have g: "user_id x = uid \<and> expense_id x = eid"
    if "uid \<noteq> 0" "get_by_id db eid (Some uid) = Some x"
    using get_by_id_Some [OF that(2)] that(1) by auto
  have d: "filter (\<lambda>e. user_id e \<noteq> uid) (expenses (fst (delete_by_id db eid uid)))
     = filter (\<lambda>e. user_id e \<noteq> uid) (expenses db)"
    by (auto simp: delete_by_id_result intro: filter_cong)
  have dc: "fst (delete_expense db eid uid) = fst (delete_by_id db eid uid)"
    by (simp add: delete_expense_def split: prod.splits)
  have u: "filter (\<lambda>e. user_id e \<noteq> uid) (expenses (fst (update_expense db eid uid kw)))
        = filter (\<lambda>e. user_id e \<noteq> uid) (expenses db)"
    if nz: "uid \<noteq> 0" and dist: "distinct (map expense_id (expenses db))"
  proof -
    obtain db' ok msg where r: "update_expense db eid uid kw = (db', ok, msg)"
      by (cases "update_expense db eid uid kw") auto
    from update_expense_cases [OF r] show ?thesis
    proof
      assume "db' = db \<and> \<not> ok"
      with r show ?thesis by simp
    next
      assume "ok \<and> reachable db \<and> msg = ''Expense updated successfully!'' \<and>
        (\<exists>x a. get_by_id db eid (Some uid) = Some x \<and>
           (case kw_amount kw of None \<Rightarrow> a = None | Some NotANumber \<Rightarrow> False
              | Some (Number v) \<Rightarrow> a = Some v \<and> 0 < v) \<and>
           has_updates (to_update kw a) \<and>
           db' = db\<lparr>expenses := map (\<lambda>e. if expense_id e = expense_id x then set_clause (to_update kw a) e else e)
                               (expenses db)\<rparr>)"
      then obtain x a where x: "get_by_id db eid (Some uid) = Some x"
        and db': "db' = db\<lparr>expenses := map (\<lambda>e. if expense_id e = expense_id x then set_clause (to_update kw a) e else e)
                               (expenses db)\<rparr>" by blast
      from get_by_id_Some [OF x] nz obtain e where e: "e \<in> set (expenses db)"
        "expense_id e = expense_id x" "user_id e = uid" by auto
      have other: "expense_id e' \<noteq> expense_id x" if "e' \<in> set (expenses db)" "user_id e' \<noteq> uid" for e'
      proof
        assume "expense_id e' = expense_id x"
        with e(2) have "expense_id e' = expense_id e" by simp
        with dist that(1) e(1) have "e' = e" by (simp add: distinct_map inj_on_def)
        with that(2) e(3) show False by simp
      qed
      have "filter (\<lambda>e. user_id e \<noteq> uid) (expenses db') = filter (\<lambda>e. user_id e \<noteq> uid) (expenses db)"
        unfolding db' using other by (simp add: filter_map_unchanged)
      with r show ?thesis by simp
    qed
  qed
  have eu: "filter (\<lambda>e. expense_id e \<noteq> expense_id self) (expenses (fst (Expense_update db self f)))
     = filter (\<lambda>e. expense_id e \<noteq> expense_id self) (expenses db)"
    by (simp add: Expense_update_result filter_map_unchanged)
  have ed: "filter (\<lambda>e. expense_id e \<noteq> expense_id self) (expenses (fst (Expense_delete db self)))
     = filter (\<lambda>e. expense_id e \<noteq> expense_id self) (expenses db)"
    by (simp add: Expense_delete_result)
  from g d dc u eu ed show ?thesis by simp
qed


theorem ownership_filters_witness:
  "distinct (map expense_id (expenses sample_db)) \<and>
   map_option user_id (get_by_id sample_db 101 (Some 11)) = Some 11 \<and>
   filter (\<lambda>e. user_id e \<noteq> 11) (expenses (fst (update_expense sample_db 101 11 sample_kwargs)))
     = filter (\<lambda>e. user_id e \<noteq> 11) (expenses sample_db) \<and>
   filter (\<lambda>e. user_id e \<noteq> 11) (expenses (fst (delete_expense sample_db 101 11)))
     = filter (\<lambda>e. user_id e \<noteq> 11) (expenses sample_db)"
proof -
  have d: "distinct (map expense_id (expenses sample_db))" by (simp add: sample_db_def)
  have g: "get_by_id sample_db 101 (Some 11) =
      Some (Expense (hd (expenses sample_db)) (hd (categories sample_db)))"
    by (simp add: get_by_id_def sample_db_def)
  have n: "(11::nat) \<noteq> 0" by simp
  from ownership_filters [of 11 sample_db 101
      "Expense (hd (expenses sample_db)) (hd (categories sample_db))" sample_kwargs] d g n
  show ?thesis by simp
qed

text \<open>
  The claim as stated fails on the sample database: an \<open>Expense\<close> object of user 11 that
  carries the id of Bob's expense deletes and updates Bob's row, and \<open>get_by_id\<close> without
  a user id reads it.
\<close>

theorem unfiltered_paths_counterexample:
  "user_id foreign_handle = 11 \<and> expense_id foreign_handle = 104 \<and>
   map expense_id (expenses sample_db) = [101, 102, 103, 104] \<and>
   map user_id (expenses sample_db) = [11, 11, 11, 12] \<and>
   map expense_id (expenses (fst (Expense_delete sample_db foreign_handle))) = [101, 102, 103] \<and>
   map amount (expenses sample_db) = [100, 501 / 2, 99 / 2, 80] \<and>
   map amount (expenses (fst (Expense_update sample_db foreign_handle
       (no_fields\<lparr>new_amount := Some 1\<rparr>)))) = [100, 501 / 2, 99 / 2, 1] \<and>
   map_option user_id (get_by_id sample_db 104 None) = Some 12"
  by (simp add: foreign_handle_def sample_db_def Expense_delete_result Expense_update_result
      has_updates_def no_fields_def set_clause_def get_by_id_def)

subsection \<open>Partial update\<close>

text \<open>
  Claim C5. \<open>update_expense\<close> answers "Expense not found" when no expense with the given
  id belongs to the given user (user identifiers are AUTO\_INCREMENT keys, never 0). When
  it succeeds, the tables of users and categories and the number and order of the
  expenses are as before, no row changes its expense id or its user, a field that was not
  supplied keeps its value in every row, rows of another expense id are unchanged, and
  in the row of the given id each supplied field has the supplied value.
\<close>

theorem update_expense_partial:
  "(uid \<noteq> 0 \<and> (\<forall>e \<in> set (expenses db). expense_id e = eid \<longrightarrow> user_id e \<noteq> uid)
      \<longrightarrow> update_expense db eid uid kw = (db, False, ''Expense not found'')) \<and>
   (update_expense db eid uid kw = (db', True, msg) \<longrightarrow>
      users db' = users db \<and> categories db' = categories db \<and>
      length (expenses db') = length (expenses db) \<and>
      (\<forall>i < length (expenses db).
         expense_id (expenses db' ! i) = expense_id (expenses db ! i) \<and>
         user_id (expenses db' ! i) = user_id (expenses db ! i) \<and>
         (kw_category_id kw = None \<longrightarrow> category_id (expenses db' ! i) = category_id (expenses db ! i)) \<and>
         (kw_amount kw = None \<longrightarrow> amount (expenses db' ! i) = amount (expenses db ! i)) \<and>
         (kw_description kw = None \<longrightarrow> description (expenses db' ! i) = description (expenses db ! i)) \<and>
         (kw_expense_date kw = None \<longrightarrow> expense_date (expenses db' ! i) = expense_date (expenses db ! i)) \<and>
         (kw_payment_method kw = None \<longrightarrow>
            payment_method (expenses db' ! i) = payment_method (expenses db ! i)) \<and>
         (kw_notes kw = None \<longrightarrow> e_notes (expenses db' ! i) = e_notes (expenses db ! i)) \<and>
         (expense_id (expenses db ! i) \<noteq> eid \<longrightarrow> expenses db' ! i = expenses db ! i) \<and>
         (expense_id (expenses db ! i) = eid \<longrightarrow>
            (\<forall>v. kw_category_id kw = Some v \<longrightarrow> category_id (expenses db' ! i) = v) \<and>
            (\<forall>v. kw_amount kw = Some (Number v) \<longrightarrow> amount (expenses db' ! i) = v) \<and>
            (\<forall>v. kw_description kw = Some v \<longrightarrow> description (expenses db' ! i) = v) \<and>
            (\<forall>v. kw_expense_date kw = Some v \<longrightarrow> expense_date (expenses db' ! i) = v) \<and>
            (\<forall>v. kw_payment_method kw = Some v \<longrightarrow> payment_method (expenses db' ! i) = v) \<and>
            (\<forall>v. kw_notes kw = Some v \<longrightarrow> e_notes (expenses db' ! i) = Some v))))"
proof (intro conjI impI)
  assume "uid \<noteq> 0 \<and> (\<forall>e \<in> set (expenses db). expense_id e = eid \<longrightarrow> user_id e \<noteq> uid)"
  then have "get_by_id db eid (Some uid) = None" by (simp add: get_by_id_None)
  then show "update_expense db eid uid kw = (db, False, ''Expense not found'')"
    by (simp add: update_expense_def)
next
  assume r: "update_expense db eid uid kw = (db', True, msg)"
  from update_expense_cases [OF r] obtain x a where x: "get_by_id db eid (Some uid) = Some x"
    and a: "case kw_amount kw of None \<Rightarrow> a = None | Some NotANumber \<Rightarrow> False
          | Some (Number v) \<Rightarrow> a = Some v \<and> 0 < v"
    and db': "db' = db\<lparr>expenses := map (\<lambda>e. if expense_id e = expense_id x
                 then set_clause (to_update kw a) e else e) (expenses db)\<rparr>"
    by blast
  from get_by_id_Some [OF x] have ix: "expense_id x = eid" by auto
  show "users db' = users db" "categories db' = categories db"
    "length (expenses db') = length (expenses db)"
    by (simp_all add: db')
  show "\<forall>i < length (expenses db).
         expense_id (expenses db' ! i) = expense_id (expenses db ! i) \<and>
         user_id (expenses db' ! i) = user_id (expenses db ! i) \<and>
         (kw_category_id kw = None \<longrightarrow> category_id (expenses db' ! i) = category_id (expenses db ! i)) \<and>
         (kw_amount kw = None \<longrightarrow> amount (expenses db' ! i) = amount (expenses db ! i)) \<and>
         (kw_description kw = None \<longrightarrow> description (expenses db' ! i) = description (expenses db ! i)) \<and>
         (kw_expense_date kw = None \<longrightarrow> expense_date (expenses db' ! i) = expense_date (expenses db ! i)) \<and>
         (kw_payment_method kw = None \<longrightarrow>
            payment_method (expenses db' ! i) = payment_method (expenses db ! i)) \<and>
         (kw_notes kw = None \<longrightarrow> e_notes (expenses db' ! i) = e_notes (expenses db ! i)) \<and>
         (expense_id (expenses db ! i) \<noteq> eid \<longrightarrow> expenses db' ! i = expenses db ! i) \<and>
         (expense_id (expenses db ! i) = eid \<longrightarrow>
            (\<forall>v. kw_category_id kw = Some v \<longrightarrow> category_id (expenses db' ! i) = v) \<and>
            (\<forall>v. kw_amount kw = Some (Number v) \<longrightarrow> amount (expenses db' ! i) = v) \<and>
            (\<forall>v. kw_description kw = Some v \<longrightarrow> description (expenses db' ! i) = v) \<and>
            (\<forall>v. kw_expense_date kw = Some v \<longrightarrow> expense_date (expenses db' ! i) = v) \<and>
            (\<forall>v. kw_payment_method kw = Some v \<longrightarrow> payment_method (expenses db' ! i) = v) \<and>
            (\<forall>v. kw_notes kw = Some v \<longrightarrow> e_notes (expenses db' ! i) = Some v))"
  proof (intro allI impI)
    fix i assume i: "i < length (expenses db)"
    have n: "expenses db' ! i = (if expense_id (expenses db ! i) = eid
               then set_clause (to_update kw a) (expenses db ! i) else expenses db ! i)"
      using i by (simp add: db' ix)
    show "expense_id (expenses db' ! i) = expense_id (expenses db ! i) \<and>
         user_id (expenses db' ! i) = user_id (expenses db ! i) \<and>
         (kw_category_id kw = None \<longrightarrow> category_id (expenses db' ! i) = category_id (expenses db ! i)) \<and>
         (kw_amount kw = None \<longrightarrow> amount (expenses db' ! i) = amount (expenses db ! i)) \<and>
         (kw_description kw = None \<longrightarrow> description (expenses db' ! i) = description (expenses db ! i)) \<and>
         (kw_expense_date kw = None \<longrightarrow> expense_date (expenses db' ! i) = expense_date (expenses db ! i)) \<and>
         (kw_payment_method kw = None \<longrightarrow>
            payment_method (expenses db' ! i) = payment_method (expenses db ! i)) \<and>
         (kw_notes kw = None \<longrightarrow> e_notes (expenses db' ! i) = e_notes (expenses db ! i)) \<and>
         (expense_id (expenses db ! i) \<noteq> eid \<longrightarrow> expenses db' ! i = expenses db ! i) \<and>
         (expense_id (expenses db ! i) = eid \<longrightarrow>
            (\<forall>v. kw_category_id kw = Some v \<longrightarrow> category_id (expenses db' ! i) = v) \<and>
            (\<forall>v. kw_amount kw = Some (Number v) \<longrightarrow> amount (expenses db' ! i) = v) \<and>
            (\<forall>v. kw_description kw = Some v \<longrightarrow> description (expenses db' ! i) = v) \<and>
            (\<forall>v. kw_expense_date kw = Some v \<longrightarrow> expense_date (expenses db' ! i) = v) \<and>
            (\<forall>v. kw_payment_method kw = Some v \<longrightarrow> payment_method (expenses db' ! i) = v) \<and>
            (\<forall>v. kw_notes kw = Some v \<longrightarrow> e_notes (expenses db' ! i) = Some v))"
      unfolding n using a
      by (auto simp: set_clause_def to_update_def split: option.splits amount_input.splits)
  qed
qed

theorem update_expense_partial_witness:
  "update_expense sample_db 104 11 sample_kwargs = (sample_db, False, ''Expense not found'') \<and>
   snd (update_expense sample_db 101 11 sample_kwargs) = (True, ''Expense updated successfully!'') \<and>
   map description (expenses (fst (update_expense sample_db 101 11 sample_kwargs)))
     = [''Weekly groceries'', ''Dinner'', ''Lunch'', ''Train''] \<and>
   amount (expenses (fst (update_expense sample_db 101 11 sample_kwargs)) ! 0)
     = amount (expenses sample_db ! 0)"
proof -
  have n: "(11::nat) \<noteq> 0 \<and> (\<forall>e \<in> set (expenses sample_db). expense_id e = 104 \<longrightarrow> user_id e \<noteq> 11)"
    by (simp add: sample_db_def)
  have a: "update_expense sample_db 104 11 sample_kwargs = (sample_db, False, ''Expense not found'')"
    using update_expense_partial [of 11 sample_db 104 sample_kwargs] n by blast
  define x where "x = Expense (hd (expenses sample_db)) (hd (categories sample_db))"
  define db' where "db' = sample_db\<lparr>expenses :=
     map (\<lambda>e. if expense_id e = 101 then set_clause (to_update sample_kwargs None) e else e)
       (expenses sample_db)\<rparr>"
  have g: "get_by_id sample_db 101 (Some 11) = Some x"
    by (simp add: get_by_id_def sample_db_def x_def)
  have ix: "expense_id x = 101" by (simp add: x_def sample_db_def)
  have r: "reachable sample_db" by (simp add: sample_db_def)
  have h: "has_updates (to_update sample_kwargs None)"
    by (simp add: has_updates_def to_update_def sample_kwargs_def)
  have k: "kw_amount sample_kwargs = None" by (simp add: sample_kwargs_def)
  have u: "update_expense sample_db 101 11 sample_kwargs = (db', True, ''Expense updated successfully!'')"
    by (simp add: update_expense_def g k finish_update_def Expense_update_result h r ix db'_def)
  have l: "0 < length (expenses sample_db)" by (simp add: sample_db_def)
  from update_expense_partial [of 11 sample_db 101 sample_kwargs db' "''Expense updated successfully!''"] u k l
  have "amount (expenses db' ! 0) = amount (expenses sample_db ! 0)" by blast
  moreover have "map description (expenses db') = [''Weekly groceries'', ''Dinner'', ''Lunch'', ''Train'']"
    by (simp add: db'_def sample_db_def set_clause_def to_update_def sample_kwargs_def)
  ultimately show ?thesis using a by (simp add: u)
qed


subsection \<open>Registration\<close>

lemma found_count_users:
  "found (count_users db p) = (reachable db \<and> (\<exists>u \<in> set (users db). p u))"
  by (auto simp: found_def count_users_def filter_empty_conv)

lemma create_user_result:
  "create_user H db name mail pw fname =
     (if reachable db
      then (db\<lparr>users := users db @
                  [\<lparr>u_user_id = next_user_id db, username = name, email = mail,
                    password = H pw, full_name = fname, is_active = True\<rparr>]\<rparr>,
            Some \<lparr>usr_id = next_user_id db, usr_username = name, usr_email = mail,
                  usr_full_name = fname, usr_is_active = True\<rparr>)
      else (db, None))"
  by (simp add: create_user_def exec_insert_user_def next_user_id_def)

lemma validate_password_ok:
  "fst (validate_password pw) = (6 \<le> length pw \<and> (\<exists>c \<in> set pw. is_letter c) \<and> (\<exists>c \<in> set pw. is_digit c))"
  by (auto simp: validate_password_def list_ex_iff)

lemma register_rejected_state:
  "fst (snd (register H st name mail pw cpw fname)) = False \<Longrightarrow>
   fst (register H st name mail pw cpw fname) = st"
  by (auto simp: register_def create_user_result split: if_splits prod.splits option.splits bool.splits)

lemma reg_username:
  "name \<noteq> [] \<and> mail \<noteq> [] \<and> pw \<noteq> [] \<and> cpw \<noteq> [] \<and> fname \<noteq> [] \<Longrightarrow> \<not> validate_username name \<Longrightarrow>
   register H st name mail pw cpw fname =
     (st, False, ''Username must be 3-20 characters (letters, numbers, underscore)'', None)"
  by (simp add: register_def)

lemma reg_email:
  "name \<noteq> [] \<and> mail \<noteq> [] \<and> pw \<noteq> [] \<and> cpw \<noteq> [] \<and> fname \<noteq> [] \<Longrightarrow> validate_username name \<Longrightarrow>
   \<not> validate_email mail \<Longrightarrow>
   register H st name mail pw cpw fname = (st, False, ''Please enter a valid email address'', None)"
  by (simp add: register_def)

lemma reg_password:
  "name \<noteq> [] \<and> mail \<noteq> [] \<and> pw \<noteq> [] \<and> cpw \<noteq> [] \<and> fname \<noteq> [] \<Longrightarrow> validate_username name \<Longrightarrow>
   validate_email mail \<Longrightarrow> \<not> fst (validate_password pw) \<Longrightarrow>
   register H st name mail pw cpw fname = (st, False, snd (validate_password pw), None)"
  by (simp add: register_def)

lemma exists_user_result:
  assumes "name \<noteq> []" "mail \<noteq> []"
    and "U = (reachable db \<and> (\<exists>u \<in> set (users db). username u = name))"
    and "E = (reachable db \<and> (\<exists>u \<in> set (users db). email u = mail))"
  shows "exists_user db name mail =
      (if U then (True, Some Username_field)
       else if E then (True, Some Email_field) else (False, None))"
  using assms by (simp add: exists_user_def found_count_users)

lemma reg_after_password_gen:
  assumes ne: "name \<noteq> [] \<and> mail \<noteq> [] \<and> pw \<noteq> [] \<and> cpw \<noteq> [] \<and> fname \<noteq> []"
    and vu: "validate_username name" and ve: "validate_email mail"
    and vp: "fst (validate_password pw)"
    and U: "U = (reachable (store st) \<and> (\<exists>u \<in> set (users (store st)). username u = name))"
    and E: "E = (reachable (store st) \<and> (\<exists>u \<in> set (users (store st)). email u = mail))"
  shows "register H st name mail pw cpw fname =
     (if pw \<noteq> cpw then (st, False, ''Passwords do not match'', None)
      else if U then (st, False, ''Username already taken'', None)
      else if E then (st, False, ''Email already registered'', None)
      else (case create_user H (store st) name mail pw fname of
                (db', Some u) \<Rightarrow>
                  (\<lparr>store = db', current_user = Some u\<rparr>, True,
                   ''Registration successful! Welcome!'', Some u)
              | (db', None) \<Rightarrow>
                  (st\<lparr>store := db'\<rparr>, False, ''Registration failed. Please try again.'', None)))"
proof -
  have ex: "exists_user (store st) name mail =
      (if U then (True, Some Username_field)
       else if E then (True, Some Email_field) else (False, None))"
    using ne by (intro exists_user_result U E) simp_all
  have r: "register H st name mail pw cpw fname =
     (if pw \<noteq> cpw then (st, False, ''Passwords do not match'', None)
      else (case exists_user (store st) name mail of
           (True, fld) \<Rightarrow>
             if fld = Some Username_field then (st, False, ''Username already taken'', None)
             else (st, False, ''Email already registered'', None)
         | (False, _) \<Rightarrow>
             (case create_user H (store st) name mail pw fname of
                (db', Some u) \<Rightarrow>
                  (\<lparr>store = db', current_user = Some u\<rparr>, True,
                   ''Registration successful! Welcome!'', Some u)
              | (db', None) \<Rightarrow>
                  (st\<lparr>store := db'\<rparr>, False, ''Registration failed. Please try again.'', None))))"
    using ne vu ve vp by (simp add: register_def)
  show ?thesis unfolding r ex by (cases U; cases E; simp)
qed

lemma reg_after_password:
  "name \<noteq> [] \<and> mail \<noteq> [] \<and> pw \<noteq> [] \<and> cpw \<noteq> [] \<and> fname \<noteq> [] \<Longrightarrow> validate_username name \<Longrightarrow>
   validate_email mail \<Longrightarrow> fst (validate_password pw) \<Longrightarrow>
   register H st name mail pw cpw fname =
     (if pw \<noteq> cpw then (st, False, ''Passwords do not match'', None)
      else if reachable (store st) \<and> (\<exists>u \<in> set (users (store st)). username u = name)
      then (st, False, ''Username already taken'', None)
      else if reachable (store st) \<and> (\<exists>u \<in> set (users (store st)). email u = mail)
      then (st, False, ''Email already registered'', None)
      else (case create_user H (store st) name mail pw fname of
                (db', Some u) \<Rightarrow>
                  (\<lparr>store = db', current_user = Some u\<rparr>, True,
                   ''Registration successful! Welcome!'', Some u)
              | (db', None) \<Rightarrow>
                  (st\<lparr>store := db'\<rparr>, False, ''Registration failed. Please try again.'', None)))"
  by (rule reg_after_password_gen) (rule refl | assumption)+

lemma password_messages:
  "(length pw < 6 \<longrightarrow> validate_password pw = (False, ''Password must be at least 6 characters'')) \<and>
   (6 \<le> length pw \<and> \<not> (\<exists>c \<in> set pw. is_letter c) \<longrightarrow>
      validate_password pw = (False, ''Password must contain at least one letter'')) \<and>
   (6 \<le> length pw \<and> (\<exists>c \<in> set pw. is_letter c) \<and> \<not> (\<exists>c \<in> set pw. is_digit c) \<longrightarrow>
      validate_password pw = (False, ''Password must contain at least one number''))"
  by (simp add: validate_password_def list_ex_iff)

text \<open>
  Claim C6, as amended. \<open>register\<close> first rejects an empty field with "All fields are
  required". With all five fields given it checks, in this order, the username pattern,
  the email pattern, the password policy (at least 6 characters, then at least one
  letter, then at least one digit), that password and confirmation match, and, when the
  database answers, that the username and then the email are not taken: the first check
  that fails gives the message. The nine messages are pairwise distinct, and a rejected
  registration leaves the state, hence the table of users, as it was.
\<close>

theorem register_checks_in_order:
  "(name = [] \<or> mail = [] \<or> pw = [] \<or> cpw = [] \<or> fname = [] \<longrightarrow>
      register H st name mail pw cpw fname = (st, False, ''All fields are required'', None)) \<and>
   (name \<noteq> [] \<and> mail \<noteq> [] \<and> pw \<noteq> [] \<and> cpw \<noteq> [] \<and> fname \<noteq> [] \<longrightarrow>
     (\<not> validate_username name \<longrightarrow>
        register H st name mail pw cpw fname =
          (st, False, ''Username must be 3-20 characters (letters, numbers, underscore)'', None)) \<and>
     (validate_username name \<longrightarrow>
       (\<not> validate_email mail \<longrightarrow>
          register H st name mail pw cpw fname =
            (st, False, ''Please enter a valid email address'', None)) \<and>
       (validate_email mail \<longrightarrow>
         (length pw < 6 \<longrightarrow>
            register H st name mail pw cpw fname =
              (st, False, ''Password must be at least 6 characters'', None)) \<and>
         (6 \<le> length pw \<and> \<not> (\<exists>c \<in> set pw. is_letter c) \<longrightarrow>
            register H st name mail pw cpw fname =
              (st, False, ''Password must contain at least one letter'', None)) \<and>
         (6 \<le> length pw \<and> (\<exists>c \<in> set pw. is_letter c) \<and> \<not> (\<exists>c \<in> set pw. is_digit c) \<longrightarrow>
            register H st name mail pw cpw fname =
              (st, False, ''Password must contain at least one number'', None)) \<and>
         (6 \<le> length pw \<and> (\<exists>c \<in> set pw. is_letter c) \<and> (\<exists>c \<in> set pw. is_digit c) \<longrightarrow>
           (pw \<noteq> cpw \<longrightarrow>
              register H st name mail pw cpw fname = (st, False, ''Passwords do not match'', None)) \<and>
           (pw = cpw \<and> reachable (store st) \<longrightarrow>
             ((\<exists>u \<in> set (users (store st)). username u = name) \<longrightarrow>
                register H st name mail pw cpw fname = (st, False, ''Username already taken'', None)) \<and>
             (\<not> (\<exists>u \<in> set (users (store st)). username u = name) \<and>
              (\<exists>u \<in> set (users (store st)). email u = mail) \<longrightarrow>
                register H st name mail pw cpw fname =
                  (st, False, ''Email already registered'', None))))))) \<and>
   (fst (snd (register H st name mail pw cpw fname)) = False \<longrightarrow>
      fst (register H st name mail pw cpw fname) = st) \<and>
   distinct [''All fields are required'',
             ''Username must be 3-20 characters (letters, numbers, underscore)'',
             ''Please enter a valid email address'',
             ''Password must be at least 6 characters'',
             ''Password must contain at least one letter'',
             ''Password must contain at least one number'',
             ''Passwords do not match'',
             ''Username already taken'',
             ''Email already registered'']"
proof -
  let ?R = "register H st name mail pw cpw fname"
  have e: "name = [] \<or> mail = [] \<or> pw = [] \<or> cpw = [] \<or> fname = [] \<longrightarrow>
      ?R = (st, False, ''All fields are required'', None)"
    by (auto simp: register_def)
  have s: "fst (snd ?R) = False \<longrightarrow> fst ?R = st"
    using register_rejected_state by blast
  have d: "distinct [''All fields are required'',
             ''Username must be 3-20 characters (letters, numbers, underscore)'',
             ''Please enter a valid email address'',
             ''Password must be at least 6 characters'',
             ''Password must contain at least one letter'',
             ''Password must contain at least one number'',
             ''Passwords do not match'',
             ''Username already taken'',
             ''Email already registered'']"
    by simp
  have c: "(\<not> validate_username name \<longrightarrow>
        ?R = (st, False, ''Username must be 3-20 characters (letters, numbers, underscore)'', None)) \<and>
     (validate_username name \<longrightarrow>
       (\<not> validate_email mail \<longrightarrow> ?R = (st, False, ''Please enter a valid email address'', None)) \<and>
       (validate_email mail \<longrightarrow>
         (length pw < 6 \<longrightarrow> ?R = (st, False, ''Password must be at least 6 characters'', None)) \<and>
         (6 \<le> length pw \<and> \<not> (\<exists>c \<in> set pw. is_letter c) \<longrightarrow>
            ?R = (st, False, ''Password must contain at least one letter'', None)) \<and>
         (6 \<le> length pw \<and> (\<exists>c \<in> set pw. is_letter c) \<and> \<not> (\<exists>c \<in> set pw. is_digit c) \<longrightarrow>
            ?R = (st, False, ''Password must contain at least one number'', None)) \<and>
         (6 \<le> length pw \<and> (\<exists>c \<in> set pw. is_letter c) \<and> (\<exists>c \<in> set pw. is_digit c) \<longrightarrow>
           (pw \<noteq> cpw \<longrightarrow> ?R = (st, False, ''Passwords do not match'', None)) \<and>
           (pw = cpw \<and> reachable (store st) \<longrightarrow>
             ((\<exists>u \<in> set (users (store st)). username u = name) \<longrightarrow>
                ?R = (st, False, ''Username already taken'', None)) \<and>
             (\<not> (\<exists>u \<in> set (users (store st)). username u = name) \<and>
              (\<exists>u \<in> set (users (store st)). email u = mail) \<longrightarrow>
                ?R = (st, False, ''Email already registered'', None))))))"
    if ne: "name \<noteq> [] \<and> mail \<noteq> [] \<and> pw \<noteq> [] \<and> cpw \<noteq> [] \<and> fname \<noteq> []"
  proof (intro conjI impI)
    assume "\<not> validate_username name"
    from reg_username [OF ne this]
    show "?R = (st, False, ''Username must be 3-20 characters (letters, numbers, underscore)'', None)" .
  next
    assume "validate_username name" "\<not> validate_email mail"
    from reg_email [OF ne this]
    show "?R = (st, False, ''Please enter a valid email address'', None)" .
  next
    assume vu: "validate_username name" and ve: "validate_email mail" and l: "length pw < 6"
    then have "\<not> fst (validate_password pw)" by (simp add: validate_password_ok)
    from reg_password [OF ne vu ve this] l password_messages [of pw]
    show "?R = (st, False, ''Password must be at least 6 characters'', None)" by simp
  next
    assume vu: "validate_username name" and ve: "validate_email mail"
      and l: "6 \<le> length pw \<and> \<not> (\<exists>c \<in> set pw. is_letter c)"
    then have "\<not> fst (validate_password pw)" by (simp add: validate_password_ok)
    from reg_password [OF ne vu ve this] l password_messages [of pw]
    show "?R = (st, False, ''Password must contain at least one letter'', None)" by simp
  next
    assume vu: "validate_username name" and ve: "validate_email mail"
      and l: "6 \<le> length pw \<and> (\<exists>c \<in> set pw. is_letter c) \<and> \<not> (\<exists>c \<in> set pw. is_digit c)"
    then have "\<not> fst (validate_password pw)" by (simp add: validate_password_ok)
    from reg_password [OF ne vu ve this] l password_messages [of pw]
    show "?R = (st, False, ''Password must contain at least one number'', None)" by simp
  next
    assume vu: "validate_username name" and ve: "validate_email mail"
      and l: "6 \<le> length pw \<and> (\<exists>c \<in> set pw. is_letter c) \<and> (\<exists>c \<in> set pw. is_digit c)"
      and m: "pw \<noteq> cpw"
    from l have "fst (validate_password pw)" by (simp add: validate_password_ok)
    from reg_after_password [OF ne vu ve this] m
    show "?R = (st, False, ''Passwords do not match'', None)" by simp
  next
    assume vu: "validate_username name" and ve: "validate_email mail"
      and l: "6 \<le> length pw \<and> (\<exists>c \<in> set pw. is_letter c) \<and> (\<exists>c \<in> set pw. is_digit c)"
      and m: "pw = cpw \<and> reachable (store st)"
      and u: "\<exists>u \<in> set (users (store st)). username u = name"
    from l have "fst (validate_password pw)" by (simp add: validate_password_ok)
    from reg_after_password [OF ne vu ve this] m u
    show "?R = (st, False, ''Username already taken'', None)" by simp
  next
    assume vu: "validate_username name" and ve: "validate_email mail"
      and l: "6 \<le> length pw \<and> (\<exists>c \<in> set pw. is_letter c) \<and> (\<exists>c \<in> set pw. is_digit c)"
      and m: "pw = cpw \<and> reachable (store st)"
      and u: "\<not> (\<exists>u \<in> set (users (store st)). username u = name) \<and>
              (\<exists>u \<in> set (users (store st)). email u = mail)"
    from l have "fst (validate_password pw)" by (simp add: validate_password_ok)
    from reg_after_password [OF ne vu ve this] m u
    show "?R = (st, False, ''Email already registered'', None)" by simp
  qed
  from e c s d show ?thesis by blast
qed


lemma sample_validations:
  "validate_username ''ab'' = False" "validate_username ''carol'' = True"
  "validate_username ''alice'' = True"
  "validate_email ''not-an-email'' = False" "validate_email ''carol@example.com'' = True"
  "validate_email ''alice@example.com'' = True"
  by (simp_all add: validate_username_def validate_email_def before_dollar_def is_word_char_def
      is_local_char_def is_domain_char_def is_letter_def is_digit_def letters_def digits_def)

lemma sample_passwords:
  "length ''abcdef'' = 6" "\<exists>c \<in> set ''abcdef''. is_letter c" "\<not> (\<exists>c \<in> set ''abcdef''. is_digit c)"
  "length ''abc123'' = 6" "\<exists>c \<in> set ''abc123''. is_letter c" "\<exists>c \<in> set ''abc123''. is_digit c"
  by (simp_all add: is_letter_def is_digit_def letters_def digits_def)

theorem register_checks_in_order_witness:
  "register sample_hash sample_state ''ab'' ''carol@example.com'' ''abc123'' ''abc123'' ''Carol'' =
     (sample_state, False, ''Username must be 3-20 characters (letters, numbers, underscore)'', None) \<and>
   register sample_hash sample_state ''carol'' ''not-an-email'' ''abc123'' ''abc123'' ''Carol'' =
     (sample_state, False, ''Please enter a valid email address'', None) \<and>
   register sample_hash sample_state ''carol'' ''carol@example.com'' ''abcdef'' ''abcdef'' ''Carol'' =
     (sample_state, False, ''Password must contain at least one number'', None) \<and>
   register sample_hash sample_state ''carol'' ''carol@example.com'' ''abc123'' ''abc124'' ''Carol'' =
     (sample_state, False, ''Passwords do not match'', None) \<and>
   register sample_hash sample_state ''alice'' ''carol@example.com'' ''abc123'' ''abc123'' ''Carol'' =
     (sample_state, False, ''Username already taken'', None) \<and>
   register sample_hash sample_state ''carol'' ''alice@example.com'' ''abc123'' ''abc123'' ''Carol'' =
     (sample_state, False, ''Email already registered'', None)"
proof -
  have r: "reachable (store sample_state)" by (simp add: sample_state_def sample_db_def)
  have u: "\<exists>u \<in> set (users (store sample_state)). username u = ''alice''"
    "\<not> (\<exists>u \<in> set (users (store sample_state)). username u = ''carol'')"
    "\<exists>u \<in> set (users (store sample_state)). email u = ''alice@example.com''"
    by (simp_all add: sample_state_def sample_db_def)
  have 1: "register sample_hash sample_state ''ab'' ''carol@example.com'' ''abc123'' ''abc123'' ''Carol'' =
     (sample_state, False, ''Username must be 3-20 characters (letters, numbers, underscore)'', None)"
    using register_checks_in_order [where name = "''ab''" and mail = "''carol@example.com''"
        and pw = "''abc123''" and cpw = "''abc123''" and fname = "''Carol''" and H = sample_hash
        and st = sample_state] sample_validations
    by simp
  have 2: "register sample_hash sample_state ''carol'' ''not-an-email'' ''abc123'' ''abc123'' ''Carol'' =
     (sample_state, False, ''Please enter a valid email address'', None)"
    using register_checks_in_order [where name = "''carol''" and mail = "''not-an-email''"
        and pw = "''abc123''" and cpw = "''abc123''" and fname = "''Carol''" and H = sample_hash
        and st = sample_state] sample_validations
    by simp
  have 3: "register sample_hash sample_state ''carol'' ''carol@example.com'' ''abcdef'' ''abcdef'' ''Carol'' =
     (sample_state, False, ''Password must contain at least one number'', None)"
    using register_checks_in_order [where name = "''carol''" and mail = "''carol@example.com''"
        and pw = "''abcdef''" and cpw = "''abcdef''" and fname = "''Carol''" and H = sample_hash
        and st = sample_state] sample_validations sample_passwords
    by simp
  have 4: "register sample_hash sample_state ''carol'' ''carol@example.com'' ''abc123'' ''abc124'' ''Carol'' =
     (sample_state, False, ''Passwords do not match'', None)"
    using register_checks_in_order [where name = "''carol''" and mail = "''carol@example.com''"
        and pw = "''abc123''" and cpw = "''abc124''" and fname = "''Carol''" and H = sample_hash
        and st = sample_state] sample_validations sample_passwords
    by simp
  have 5: "register sample_hash sample_state ''alice'' ''carol@example.com'' ''abc123'' ''abc123'' ''Carol'' =
     (sample_state, False, ''Username already taken'', None)"
    using register_checks_in_order [where name = "''alice''" and mail = "''carol@example.com''"
        and pw = "''abc123''" and cpw = "''abc123''" and fname = "''Carol''" and H = sample_hash
        and st = sample_state] sample_validations sample_passwords r u
    by simp
  have 6: "register sample_hash sample_state ''carol'' ''alice@example.com'' ''abc123'' ''abc123'' ''Carol'' =
     (sample_state, False, ''Email already registered'', None)"
    using register_checks_in_order [where name = "''carol''" and mail = "''alice@example.com''"
        and pw = "''abc123''" and cpw = "''abc123''" and fname = "''Carol''" and H = sample_hash
        and st = sample_state] sample_validations sample_passwords r u
    by simp
  from 1 2 3 4 5 6 show ?thesis by blast
qed

text \<open>
  The claim as stated fails for a request with an empty field: the username \<open>ab\<close> does
  not match the pattern, yet the message is not the one of the username check.
\<close>

theorem register_empty_field_counterexample:
  "validate_username ''ab'' = False \<and>
   register sample_hash sample_state ''ab'' ''not-an-email'' ''abcdef'' ''abcdeg'' [] =
     (sample_state, False, ''All fields are required'', None)"
  by (simp add: sample_validations register_def)

subsection \<open>Login\<close>








end
